theory Spec2Isabelle
  imports Main "HOL-Library.AList"
begin

section \<open>Credential store and token registry (index.ts)\<close>

text \<open>
  Times are milliseconds since the epoch, as \<^verbatim>\<open>Date.now()\<close> and
  \<^verbatim>\<open>Date.getTime()\<close> return them; every clock read of the source is a
  parameter of the function that makes it. The result of \<^verbatim>\<open>crypto.randomUUID()\<close>
  is a parameter as well.
\<close>

text \<open>
  A parsed JSON document, as far as \<^verbatim>\<open>loadCredentials\<close> looks into one: a document
  with the members \<^verbatim>\<open>installed\<close> and \<^verbatim>\<open>web\<close> of an OAuth key file (each
  possibly missing), or any other document, numbered.
\<close>

datatype oauth_keys =
  OAuthKeys (client_id: string) (client_secret: string) (redirect_uris: "string list")

datatype json = JsonKeys "oauth_keys option" "oauth_keys option" | JsonOther nat

text \<open>
  The OAuth client and the Gmail client are objects of external libraries. A client
  made by the authentication tools is a numbered handle: only its identity matters here.
  A client made by \<^verbatim>\<open>loadCredentials\<close> is given by what it was built from: client
  id, client secret, redirect URI, and the credentials set on it, if any. A Gmail client
  records the OAuth client it was built from.
\<close>

datatype OAuth2Client =
    OAuth2Client nat
  | LoadedClient string string string "json option"

datatype Gmail = Gmail OAuth2Client

text \<open>
  \<^verbatim>\<open>interface SessionData\<close>. The two clients are optional in the model
  because \<^verbatim>\<open>getSessionData\<close> tests them for being falsy at run time.
\<close>

record SessionData =
  oauth2Client :: "OAuth2Client option"
  gmail :: "Gmail option"
  userId :: "string option"
  sessionToken :: "string option"
  tokenCreatedAt :: "int option"

text \<open>The two module-level maps \<^verbatim>\<open>sessionStore\<close> and \<^verbatim>\<open>tokenToSessionMap\<close>.\<close>

record registries =
  sessionStore :: "string \<rightharpoonup> SessionData"
  tokenToSessionMap :: "string \<rightharpoonup> string"

definition empty_registries :: registries where
  "empty_registries = \<lparr>sessionStore = Map.empty, tokenToSessionMap = Map.empty\<rparr>"

subsection \<open>generateSessionToken\<close>

definition digit36 :: "nat \<Rightarrow> char" where
  "digit36 d = ''0123456789abcdefghijklmnopqrstuvwxyz'' ! d"

function toString36_digits :: "int \<Rightarrow> string" where
  "toString36_digits n =
     (if n < 36 then [digit36 (nat n)]
      else toString36_digits (n div 36) @ [digit36 (nat (n mod 36))])"
  by pat_completeness auto
termination
  by (relation "measure nat") auto

declare toString36_digits.simps [simp del]

text \<open>\<^verbatim>\<open>Number.prototype.toString(36)\<close> on an integer.\<close>

definition toString36 :: "int \<Rightarrow> string" where
  "toString36 i = (if i < 0 then CHR ''-'' # toString36_digits (- i) else toString36_digits i)"

text \<open>
  \<^verbatim>\<open>'mcp_token_' + crypto.randomUUID().replace(/-/g, '') + '_' + Date.now().toString(36)\<close>
\<close>

definition generateSessionToken :: "string \<Rightarrow> int \<Rightarrow> string" where
  "generateSessionToken uuid now =
     ''mcp_token_'' @ filter (\<lambda>c. c \<noteq> CHR ''-'') uuid @ ''_'' @ toString36 now"

subsection \<open>storeSessionData\<close>

text \<open>
  \<^verbatim>\<open>tnow\<close> is the clock read inside \<^verbatim>\<open>generateSessionToken\<close>,
  \<^verbatim>\<open>now\<close> the one of \<^verbatim>\<open>new Date()\<close> for \<^verbatim>\<open>tokenCreatedAt\<close>.
\<close>

definition storeSessionData ::
  "string \<Rightarrow> int \<Rightarrow> int \<Rightarrow> string \<Rightarrow> OAuth2Client \<Rightarrow> Gmail \<Rightarrow> string option \<Rightarrow> registries
     \<Rightarrow> string \<times> registries" where
  "storeSessionData uuid tnow now sessionId client gm uid s =
     (let token = generateSessionToken uuid tnow;
          sessionData = \<lparr>oauth2Client = Some client, gmail = Some gm, userId = uid,
                         sessionToken = Some token, tokenCreatedAt = Some now\<rparr>
      in (token,
          s\<lparr>sessionStore := (sessionStore s)(sessionId \<mapsto> sessionData),
            tokenToSessionMap := (tokenToSessionMap s)(token \<mapsto> sessionId)\<rparr>))"

subsection \<open>getSessionData\<close>


subsection \<open>validateSessionToken\<close>

definition maxAge_token :: int where
  "maxAge_token = 24 * 60 * 60 * 1000"

text \<open>\<^verbatim>\<open>sessionData.tokenCreatedAt?.getTime() || 0\<close>\<close>

definition createdAt_or_0 :: "SessionData \<Rightarrow> int" where
  "createdAt_or_0 sessionData =
     (case tokenCreatedAt sessionData of None \<Rightarrow> 0 | Some t \<Rightarrow> (if t = 0 then 0 else t))"

text \<open>
  The result \<^verbatim>\<open>null\<close> is \<open>None\<close>. \<^verbatim>\<open>!sessionId\<close> holds for a missing
  key and for the empty string; a stored record is an object and so never falsy.
\<close>

definition validateSessionToken ::
  "int \<Rightarrow> string \<Rightarrow> registries \<Rightarrow> (string \<times> SessionData) option \<times> registries" where
  "validateSessionToken now token s =
     (case tokenToSessionMap s token of
        None \<Rightarrow> (None, s)
      | Some sessionId \<Rightarrow>
          if sessionId = [] then (None, s)
          else
            (case sessionStore s sessionId of
               None \<Rightarrow> (None, s)
             | Some sessionData \<Rightarrow>
                 if sessionToken sessionData \<noteq> Some token then (None, s)
                 else
                   let tokenAge = now - createdAt_or_0 sessionData
                   in if tokenAge > maxAge_token then
                        (None,
                         s\<lparr>tokenToSessionMap := (tokenToSessionMap s)(token := None),
                           sessionStore := (sessionStore s)(sessionId := None)\<rparr>)
                      else (Some (sessionId, sessionData), s)))"

subsection \<open>Example registries\<close>

text \<open>A first issuance for the auth session \<open>auth-s1\<close>, and a second one for the same id.\<close>

definition example_issue :: "string \<times> registries" where
  "example_issue =
     storeSessionData ''0a-1b'' 1000 1000 ''auth-s1'' (OAuth2Client 1) (Gmail (OAuth2Client 1)) None
       empty_registries"

definition example_reissue :: "string \<times> registries" where
  "example_reissue =
     storeSessionData ''2c-3d'' 5000 5000 ''auth-s1'' (OAuth2Client 1) (Gmail (OAuth2Client 1)) None
       (snd example_issue)"

text \<open>
  The shape of the registries after a reissue, with short tokens: the record of
  \<open>auth-s1\<close> holds the new token, the token table still has both.
\<close>

definition example_stale :: registries where
  "example_stale =
     \<lparr>sessionStore = [''auth-s1'' \<mapsto>
         \<lparr>oauth2Client = Some (OAuth2Client 1), gmail = Some (Gmail (OAuth2Client 1)),
          userId = None, sessionToken = Some ''tok-new'', tokenCreatedAt = Some 5000\<rparr>],
      tokenToSessionMap = [''tok-old'' \<mapsto> ''auth-s1'', ''tok-new'' \<mapsto> ''auth-s1'']\<rparr>"

section \<open>Session-aware transport manager (session-aware-transport.ts)\<close>

text \<open>
  Errors thrown by the source are values: \<open>Error msg\<close> is \<^verbatim>\<open>new Error(msg)\<close>,
  \<open>TypeError msg\<close> the error the runtime raises on a property read of \<^verbatim>\<open>undefined\<close>.
\<close>

datatype js_error = Error string | TypeError string

text \<open>
  JavaScript truthiness of a \<^verbatim>\<open>string | undefined\<close>: \<^verbatim>\<open>undefined\<close> and the
  empty string are falsy.
\<close>

definition truthy :: "string option \<Rightarrow> bool" where
  "truthy v = (case v of None \<Rightarrow> False | Some str \<Rightarrow> str \<noteq> [])"

subsection \<open>The protocol library's server, as far as the manager uses it\<close>

text \<open>
  The server class belongs to the protocol library (\<^verbatim>\<open>@modelcontextprotocol/sdk\<close>) and
  is not among the sources; what follows is its behaviour as far as
  \<^verbatim>\<open>getOrCreateSession\<close> meets it. A key of the handler table is typed \<^verbatim>\<open>any\<close>:
  it is a request schema, which fixes the method it is for, or something else, such as
  the string keys the repository's documentation reports. The handler type \<open>'h\<close> is
  left open: the manager stores handlers and never calls them.
\<close>

datatype schema = Schema string | NotASchema string



text \<open>
  \<open>capabilities\<close> lists the capability groups that the server's options declare.
  \<open>requestHandlers\<close> maps a method to the handler set for it through
  \<^verbatim>\<open>setRequestHandler\<close>; the library's own handlers for \<^verbatim>\<open>initialize\<close> and
  \<^verbatim>\<open>ping\<close> are not listed in it, and neither answers \<^verbatim>\<open>tools/list\<close>.
\<close>

record 'h Server =
  serverInfo :: "string \<times> string"
  capabilities :: "string list"
  requestHandlers :: "string \<rightharpoonup> 'h"
  connectedTransport :: "string option"

text \<open>\<^verbatim>\<open>new Server(baseServerConfig, serverCapabilities)\<close>: no handler of the caller's yet.\<close>

definition new_Server :: "string \<times> string \<Rightarrow> string list \<Rightarrow> 'h Server" where
  "new_Server baseServerConfig serverCapabilities =
     \<lparr>serverInfo = baseServerConfig, capabilities = serverCapabilities,
      requestHandlers = Map.empty, connectedTransport = None\<rparr>"

text \<open>
  The capability group that the server must have declared before a handler for the
  method can be set (the library's \<^verbatim>\<open>assertRequestHandlerCapability\<close>).
\<close>

definition requiredCapability :: "string \<Rightarrow> string option" where
  "requiredCapability meth =
     (if meth = ''logging/setLevel'' then Some ''logging''
      else if meth = ''prompts/get'' \<or> meth = ''prompts/list'' then Some ''prompts''
      else if meth = ''resources/list'' \<or> meth = ''resources/templates/list''
                \<or> meth = ''resources/read'' then Some ''resources''
      else if meth = ''tools/call'' \<or> meth = ''tools/list'' then Some ''tools''
      else None)"

text \<open>
  \<^verbatim>\<open>mcpServer.setRequestHandler(schema, handler)\<close> throws on a key that is not a
  schema and on a method whose capability group the server has not declared; otherwise
  it sets the handler of the method, replacing an earlier one.
\<close>

definition setRequestHandler :: "schema \<Rightarrow> 'h \<Rightarrow> 'h Server \<Rightarrow> js_error + 'h Server" where
  "setRequestHandler sch handler srv =
     (case sch of
        NotASchema key \<Rightarrow>
          Inl (TypeError (''Cannot read properties of undefined (reading '' @ [CHR 0x27] @ ''method''
                          @ [CHR 0x27] @ '')''))
      | Schema meth \<Rightarrow>
          (case requiredCapability meth of
             None \<Rightarrow> Inr (srv\<lparr>requestHandlers := (requestHandlers srv)(meth \<mapsto> handler)\<rparr>)
           | Some cap \<Rightarrow>
               if cap \<in> set (capabilities srv) then
                 Inr (srv\<lparr>requestHandlers := (requestHandlers srv)(meth \<mapsto> handler)\<rparr>)
               else
                 Inl (Error (''Server does not support '' @ cap @ '' (required for '' @ meth
                             @ '')''))))"

text \<open>
  \<^verbatim>\<open>class SessionAwareStreamableTransport\<close>: the session id it is bound to and the
  auth session id. Its third field is a reference to the manager's context storage.
\<close>

record SessionAwareStreamableTransport =
  t_sessionId :: string
  t_authSessionId :: string

text \<open>
  \<^verbatim>\<open>await mcpServer.connect(transport)\<close> starts the transport, which throws when the
  transport has been started before; \<open>started\<close> is that flag of the parent class.
\<close>

definition connect ::
  "'h Server \<Rightarrow> SessionAwareStreamableTransport \<Rightarrow> bool \<Rightarrow> js_error + 'h Server" where
  "connect srv transport started =
     (if started then Inl (Error ''Transport already started'')
      else Inr (srv\<lparr>connectedTransport := Some (t_sessionId transport)\<rparr>))"

subsection \<open>Session records and the manager's table\<close>

record 'h SessionTransportData =
  st_transport :: SessionAwareStreamableTransport
  st_mcpServer :: "'h Server"
  st_sessionId :: string
  st_authSessionId :: string
  st_createdAt :: int
  st_lastActivity :: int
  st_requestCount :: nat

text \<open>
  \<^verbatim>\<open>sessions\<close> is a JavaScript \<^verbatim>\<open>Map\<close>, which iterates in insertion order: an
  association list, with \<open>AList.update\<close> for \<^verbatim>\<open>set\<close> (an existing key keeps its
  place, a new one goes last), \<open>AList.delete\<close> for \<^verbatim>\<open>delete\<close> and \<open>map_of\<close> for
  \<^verbatim>\<open>get\<close>. \<open>closedTransports\<close> lists the session ids of the transports on which
  \<^verbatim>\<open>close()\<close> has been called, in call order: a closed transport is no longer
  reachable from the table.
\<close>

record 'h manager =
  sessions :: "(string \<times> 'h SessionTransportData) list"
  closedTransports :: "string list"

definition new_manager :: "'h manager" where
  "new_manager = \<lparr>sessions = [], closedTransports = []\<rparr>"

subsection \<open>getOrCreateSession\<close>

text \<open>
  The loop \<^verbatim>\<open>for (const [schema, handler] of toolHandlers)\<close>; it ends at the first
  \<^verbatim>\<open>setRequestHandler\<close> that throws.
\<close>

fun registerHandlers :: "(schema \<times> 'h) list \<Rightarrow> 'h Server \<Rightarrow> js_error + 'h Server" where
  "registerHandlers [] srv = Inr srv"
| "registerHandlers ((sch, handler) # rest) srv =
     (case setRequestHandler sch handler srv of
        Inl e \<Rightarrow> Inl e
      | Inr srv' \<Rightarrow> registerHandlers rest srv')"

text \<open>
  \<open>uuid\<close> is the result of \<^verbatim>\<open>randomUUID()\<close>; \<open>created\<close> and \<open>now\<close> are the two
  \<^verbatim>\<open>new Date()\<close> of the creation branch, \<open>now\<close> the one of the lookup branch. The
  result is the pair \<^verbatim>\<open>{ sessionData, isNewSession }\<close> or the error thrown, together
  with the manager after the call. In the creation branch the server is built, the
  handlers are registered and the server is connected to the new transport before
  \<^verbatim>\<open>this.sessions.set\<close>: an error thrown by one of these leaves the table as it
  was.
\<close>

definition getOrCreateSession ::
  "string \<Rightarrow> int \<Rightarrow> int \<Rightarrow> string option \<Rightarrow> bool \<Rightarrow> string \<times> string \<Rightarrow> string list
     \<Rightarrow> (schema \<times> 'h) list \<Rightarrow> 'h manager
     \<Rightarrow> (js_error + ('h SessionTransportData \<times> bool)) \<times> 'h manager" where
  "getOrCreateSession uuid created now sessionId isInitializeRequest baseServerConfig
       serverCapabilities toolHandlers m =
     (if \<not> truthy sessionId \<and> isInitializeRequest then
        (let newSessionId = uuid;
             authSessionId = ''auth-'' @ newSessionId
         in case registerHandlers toolHandlers
                   (new_Server baseServerConfig serverCapabilities) of
              Inl e \<Rightarrow> (Inl e, m)
            | Inr mcpServer \<Rightarrow>
                (let transport = \<lparr>t_sessionId = newSessionId, t_authSessionId = authSessionId\<rparr>
                 in case connect mcpServer transport False of
                      Inl e \<Rightarrow> (Inl e, m)
                    | Inr mcpServer' \<Rightarrow>
                        (let sessionData =
                               \<lparr>st_transport = transport, st_mcpServer = mcpServer',
                                st_sessionId = newSessionId, st_authSessionId = authSessionId,
                                st_createdAt = created, st_lastActivity = now,
                                st_requestCount = 0\<rparr>
                         in (Inr (sessionData, True),
                             m\<lparr>sessions := AList.update newSessionId sessionData (sessions m)\<rparr>))))
      else
        (case sessionId of
           None \<Rightarrow> (Inl (Error (''Invalid session ID: '' @ ''undefined'')), m)
         | Some sid \<Rightarrow>
             if sid = [] then (Inl (Error (''Invalid session ID: '' @ ''undefined'')), m)
             else
               (case map_of (sessions m) sid of
                  None \<Rightarrow> (Inl (Error (''Invalid session ID: '' @ sid)), m)
                | Some sessionData \<Rightarrow>
                    (let sessionData' = sessionData\<lparr>st_lastActivity := now,
                                           st_requestCount := st_requestCount sessionData + 1\<rparr>
                     in (Inr (sessionData', False),
                         m\<lparr>sessions := AList.update sid sessionData' (sessions m)\<rparr>)))))"


subsection \<open>closeSession\<close>

text \<open>
  The test \<^verbatim>\<open>sessionData.transport && typeof sessionData.transport.close === 'function'\<close>
  holds for every record the manager creates, so the transport is always closed.
\<close>

definition closeSession :: "string \<Rightarrow> 'h manager \<Rightarrow> bool \<times> 'h manager" where
  "closeSession sessionId m =
     (case map_of (sessions m) sessionId of
        None \<Rightarrow> (False, m)
      | Some sessionData \<Rightarrow>
          (True,
           m\<lparr>closedTransports := closedTransports m @ [t_sessionId (st_transport sessionData)],
             sessions := AList.delete sessionId (sessions m)\<rparr>))"

subsection \<open>cleanupInactiveSessions\<close>

definition maxAge_idle :: int where
  "maxAge_idle = 60 * 60 * 1000"

text \<open>
  The loop over \<^verbatim>\<open>this.sessions.entries()\<close>. The only entry deleted while the loop
  runs is the one being visited, so the entries visited are those of the table at the
  start. The counter only feeds a log line.
\<close>

fun cleanupLoop ::
  "int \<Rightarrow> (string \<times> 'h SessionTransportData) list \<Rightarrow> 'h manager \<times> nat \<Rightarrow> 'h manager \<times> nat" where
  "cleanupLoop now [] acc = acc"
| "cleanupLoop now ((sessionId, sessionData) # rest) (m, cleanedCount) =
     (let age = now - st_lastActivity sessionData
      in if age > maxAge_idle then
           cleanupLoop now rest (snd (closeSession sessionId m), cleanedCount + 1)
         else cleanupLoop now rest (m, cleanedCount))"

definition cleanupInactiveSessions :: "int \<Rightarrow> 'h manager \<Rightarrow> 'h manager \<times> nat" where
  "cleanupInactiveSessions now m = cleanupLoop now (sessions m) (m, 0)"

subsection \<open>getSessionStats\<close>

record SessionSummary =
  sum_sessionId :: string
  sum_authSessionId :: string
  sum_requestCount :: nat
  sum_age :: int

record SessionStats =
  totalSessions :: nat
  stats_sessions :: "SessionSummary list"

definition getSessionStats :: "int \<Rightarrow> 'h manager \<Rightarrow> SessionStats" where
  "getSessionStats now m =
     \<lparr>totalSessions = length (sessions m),
      stats_sessions =
        map (\<lambda>(sessionId, sdata).
               \<lparr>sum_sessionId = sessionId, sum_authSessionId = st_authSessionId sdata,
                sum_requestCount = st_requestCount sdata, sum_age = now - st_createdAt sdata\<rparr>)
            (sessions m)\<rparr>"

subsection \<open>SessionAwareStreamableTransport.send\<close>

text \<open>
  \<^verbatim>\<open>interface RequestContext\<close> of the manager. Its reference to the session's
  server is left out: \<^verbatim>\<open>send\<close> does not read it.
\<close>

record RequestContext =
  rc_sessionId :: string
  rc_authSessionId :: string
  rc_requestId :: string
  rc_startTime :: int

datatype log_line =
    LogSending string
  | LogRequestId string
  | LogSessionContext string string
  | WarnNoContext string

text \<open>
  The ambient context is the value \<^verbatim>\<open>requestContextStorage.getStore()\<close> returns
  where \<^verbatim>\<open>send\<close> is entered: \<open>None\<close> when no context is available. The parent
  class's \<^verbatim>\<open>send\<close> belongs to the protocol library and is a parameter
  \<open>super_send\<close>: it is given the context that is ambient while it runs, the message and
  the state of the connection, and returns the new state or the error it throws.
  \<^verbatim>\<open>requestContextStorage.run(currentContext, f)\<close> runs \<open>f\<close> with \<open>currentContext\<close>
  ambient; a plain call leaves the ambient context as it is. The result is the console
  output and the outcome of the call.
\<close>

definition send ::
  "(RequestContext option \<Rightarrow> 'msg \<Rightarrow> 'conn \<Rightarrow> js_error + 'conn) \<Rightarrow> SessionAwareStreamableTransport
     \<Rightarrow> RequestContext option \<Rightarrow> 'msg \<Rightarrow> 'conn \<Rightarrow> log_line list \<times> (js_error + 'conn)" where
  "send super_send this ambient message conn =
     (let currentContext = ambient;
          out = LogSending (t_sessionId this) #
                (case currentContext of
                   Some ctx \<Rightarrow> [LogRequestId (rc_requestId ctx),
                                LogSessionContext (rc_sessionId ctx) (rc_authSessionId ctx)]
                 | None \<Rightarrow> [WarnNoContext (t_sessionId this)])
      in case currentContext of
           Some ctx \<Rightarrow> (out, super_send (Some ctx) message conn)
         | None \<Rightarrow> (out, super_send ambient message conn))"

text \<open>
  A parent \<^verbatim>\<open>send\<close> for the examples: it appends the message to the connection's
  output together with the context that was ambient, and fails on a closed connection
  (\<open>None\<close>).
\<close>

definition example_super_send ::
  "RequestContext option \<Rightarrow> string \<Rightarrow> (RequestContext option \<times> string) list option
     \<Rightarrow> js_error + (RequestContext option \<times> string) list option" where
  "example_super_send ambient message conn =
     (case conn of
        None \<Rightarrow> Inl (Error ''Not connected'')
      | Some out \<Rightarrow> Inr (Some (out @ [(ambient, message)])))"

section \<open>The tool handlers (index.ts)\<close>

subsection \<open>The capability-discovery handler\<close>

text \<open>
  A tool of the listing: its name, its description and the name of the schema whose JSON
  form is its \<^verbatim>\<open>inputSchema\<close>.
\<close>

record Tool =
  tool_name :: string
  tool_description :: string
  tool_inputSchema :: string

datatype request = ListToolsRequest | CallToolRequest string

datatype response = ToolsResult "Tool list" | ContentResult string

definition tools :: "Tool list" where
  "tools =
    [\<lparr>tool_name = ''send_email'', tool_description = ''Sends a new email'',
      tool_inputSchema = ''SendEmailSchema''\<rparr>,
     \<lparr>tool_name = ''draft_email'', tool_description = ''Draft a new email'',
      tool_inputSchema = ''SendEmailSchema''\<rparr>,
     \<lparr>tool_name = ''read_email'', tool_description = ''Retrieves the content of a specific email'',
      tool_inputSchema = ''ReadEmailSchema''\<rparr>,
     \<lparr>tool_name = ''search_emails'',
      tool_description = ''Searches for emails using Gmail search syntax'',
      tool_inputSchema = ''SearchEmailsSchema''\<rparr>,
     \<lparr>tool_name = ''modify_email'',
      tool_description = ''Modifies email labels (move to different folders)'',
      tool_inputSchema = ''ModifyEmailSchema''\<rparr>,
     \<lparr>tool_name = ''delete_email'', tool_description = ''Permanently deletes an email'',
      tool_inputSchema = ''DeleteEmailSchema''\<rparr>,
     \<lparr>tool_name = ''list_email_labels'', tool_description = ''Retrieves all available Gmail labels'',
      tool_inputSchema = ''ListEmailLabelsSchema''\<rparr>,
     \<lparr>tool_name = ''batch_modify_emails'',
      tool_description = ''Modifies labels for multiple emails in batches'',
      tool_inputSchema = ''BatchModifyEmailsSchema''\<rparr>,
     \<lparr>tool_name = ''batch_delete_emails'',
      tool_description = ''Permanently deletes multiple emails in batches'',
      tool_inputSchema = ''BatchDeleteEmailsSchema''\<rparr>,
     \<lparr>tool_name = ''create_label'', tool_description = ''Creates a new Gmail label'',
      tool_inputSchema = ''CreateLabelSchema''\<rparr>,
     \<lparr>tool_name = ''update_label'', tool_description = ''Updates an existing Gmail label'',
      tool_inputSchema = ''UpdateLabelSchema''\<rparr>,
     \<lparr>tool_name = ''delete_label'', tool_description = ''Deletes a Gmail label'',
      tool_inputSchema = ''DeleteLabelSchema''\<rparr>,
     \<lparr>tool_name = ''get_or_create_label'',
      tool_description =
        ''Gets an existing label by name or creates it if it doesn'' @ [CHR 0x27] @ ''t exist'',
      tool_inputSchema = ''GetOrCreateLabelSchema''\<rparr>,
     \<lparr>tool_name = ''download_attachment'',
      tool_description = ''Downloads an email attachment to a specified location'',
      tool_inputSchema = ''DownloadAttachmentSchema''\<rparr>,
     \<lparr>tool_name = ''get_auth_url'',
      tool_description =
        ''Sets up OAuth configuration and returns authentication URL for user to visit'',
      tool_inputSchema = ''GetAuthUrlSchema''\<rparr>,
     \<lparr>tool_name = ''check_authentication'',
      tool_description =
        ''Checks if authentication is complete and returns session token if successful'',
      tool_inputSchema = ''CheckAuthenticationSchema''\<rparr>,
     \<lparr>tool_name = ''setup_authentication'',
      tool_description =
        ''Sets up and performs authentication with Google Cloud OAuth (legacy - use get_auth_url + check_authentication instead)'',
      tool_inputSchema = ''SetupAuthenticationSchema''\<rparr>,
     \<lparr>tool_name = ''authenticate_with_token'',
      tool_description = ''Authenticate using a previously received session token'',
      tool_inputSchema = ''AuthenticateWithTokenSchema''\<rparr>]"

text \<open>The handler registered for \<^verbatim>\<open>ListToolsRequestSchema\<close>: \<^verbatim>\<open>async () => ({ tools: [...] })\<close>.\<close>

definition listToolsHandler :: "request \<Rightarrow> response" where
  "listToolsHandler req = ToolsResult tools"


subsection \<open>loadCredentials\<close>

text \<open>
  What \<^verbatim>\<open>loadCredentials\<close> reads and writes outside the program: the two
  environment variables that override the paths, the home and working directories, the
  command line, and the files. A file is a directory, a file holding a JSON document, or
  a file that \<^verbatim>\<open>JSON.parse\<close> rejects. \<open>readonly\<close> lists the paths at which
  \<^verbatim>\<open>mkdirSync\<close> and \<^verbatim>\<open>copyFileSync\<close> throw. The three module variables
  \<^verbatim>\<open>CONFIG_DIR\<close>, \<^verbatim>\<open>OAUTH_PATH\<close> and \<^verbatim>\<open>CREDENTIALS_PATH\<close> are part of this
  state: \<^verbatim>\<open>updatePaths\<close> assigns them.
\<close>

datatype fs_entry = Directory | JsonFile json | NotJson











subsection \<open>The invocation handler up to its authentication gate\<close>


















subsection \<open>Example sessions\<close>



text \<open>
  The record \<^verbatim>\<open>getOrCreateSession\<close> creates for the id \<open>sid\<close> at time \<open>t\<close> from the
  first table on a server that declares the tools capability, and a manager with two
  such sessions: \<open>s1\<close> last active at 0, \<open>s2\<close> at 3000000.
\<close>

definition example_session :: "string \<Rightarrow> int \<Rightarrow> (request \<Rightarrow> response) SessionTransportData" where
  "example_session sid t =
     \<lparr>st_transport = \<lparr>t_sessionId = sid, t_authSessionId = ''auth-'' @ sid\<rparr>,
      st_mcpServer =
        \<lparr>serverInfo = (''gmail'', ''1.0.0''), capabilities = [''tools''],
         requestHandlers = [''tools/list'' \<mapsto> listToolsHandler,
                            ''tools/call'' \<mapsto> (\<lambda>req. ContentResult ''called'')],
         connectedTransport = Some sid\<rparr>,
      st_sessionId = sid, st_authSessionId = ''auth-'' @ sid,
      st_createdAt = t, st_lastActivity = t, st_requestCount = 0\<rparr>"

definition example_manager :: "(request \<Rightarrow> response) manager" where
  "example_manager =
     \<lparr>sessions = [(''s1'', example_session ''s1'' 0), (''s2'', example_session ''s2'' 3000000)],
      closedTransports = []\<rparr>"


subsection \<open>Example hosts\<close>






section \<open>Properties of the token registry\<close>

lemma validate_ok:
  assumes "tokenToSessionMap s token = Some sid" "sid \<noteq> []" "sessionStore s sid = Some sd"
    "sessionToken sd = Some token"
  shows "validateSessionToken now token s =
          (if now - createdAt_or_0 sd \<le> maxAge_token then (Some (sid, sd), s)
           else (None, s\<lparr>tokenToSessionMap := (tokenToSessionMap s)(token := None),
                          sessionStore := (sessionStore s)(sid := None)\<rparr>))"
  using assms by (simp add: validateSessionToken_def Let_def)

lemma validate_fail_unchanged:
  assumes "\<nexists>sid sd. tokenToSessionMap s token = Some sid \<and> sid \<noteq> [] \<and> sessionStore s sid = Some sd
              \<and> sessionToken sd = Some token"
  shows "validateSessionToken now token s = (None, s)"
  using assms by (auto simp add: validateSessionToken_def Let_def split: option.splits)

lemma validate_unknown_token:
  "tokenToSessionMap s token = None \<Longrightarrow> validateSessionToken now token s = (None, s)"
  by (simp add: validateSessionToken_def)

lemma store_lookup:
  assumes "storeSessionData uuid tnow issuedAt sessionId client gm uid s = (token, s1)"
  shows "tokenToSessionMap s1 token = Some sessionId"
    and "sessionStore s1 sessionId =
           Some \<lparr>oauth2Client = Some client, gmail = Some gm, userId = uid,
                 sessionToken = Some token, tokenCreatedAt = Some issuedAt\<rparr>"
    and "token = generateSessionToken uuid tnow"
  using assms by (auto simp add: storeSessionData_def Let_def)

text \<open>
  C2, as the spec states it, fails on the code in two places. A token that lost the
  cross-check (the record of its session holds another token) is refused, and both the
  token mapping and the session record stay in the registries. And a token whose age is
  exactly 24 hours, which is not less than 24 hours, is accepted.
\<close>

theorem validateSessionToken_C2_counterexample:
  "fst (validateSessionToken 6000 ''tok-old'' example_stale) = None
   \<and> tokenToSessionMap (snd (validateSessionToken 6000 ''tok-old'' example_stale)) ''tok-old''
        = Some ''auth-s1''
   \<and> sessionStore (snd (validateSessionToken 6000 ''tok-old'' example_stale)) ''auth-s1'' \<noteq> None
   \<and> fst (validateSessionToken (5000 + 24 * 60 * 60 * 1000) ''tok-new'' example_stale) \<noteq> None"
  by (simp add: validateSessionToken_def example_stale_def createdAt_or_0_def maxAge_token_def)

text \<open>
  C2 (amended): validation of a presented token succeeds exactly when the token is a key
  of the token table, the session id it maps to is not the empty string, the record of
  that session exists and its stored token equals the presented one, and the age of the
  token is at most 24 hours. When the first three checks pass, the result is decided by
  the age alone, and a token older than 24 hours is refused with the token mapping and the
  session record deleted. When one of the first three checks fails, the token is refused
  and both registries are left as they were.
\<close>

theorem validateSessionToken_checks:
  "(fst (validateSessionToken now token s) \<noteq> None \<longleftrightarrow>
      (\<exists>sid sd. tokenToSessionMap s token = Some sid \<and> sid \<noteq> [] \<and> sessionStore s sid = Some sd
          \<and> sessionToken sd = Some token \<and> now - createdAt_or_0 sd \<le> 24 * 60 * 60 * 1000))
   \<and> (\<forall>sid sd. tokenToSessionMap s token = Some sid \<and> sid \<noteq> [] \<and> sessionStore s sid = Some sd
          \<and> sessionToken sd = Some token \<longrightarrow>
        validateSessionToken now token s =
          (if now - createdAt_or_0 sd \<le> 24 * 60 * 60 * 1000 then (Some (sid, sd), s)
           else (None, s\<lparr>tokenToSessionMap := (tokenToSessionMap s)(token := None),
                          sessionStore := (sessionStore s)(sid := None)\<rparr>)))
   \<and> ((\<nexists>sid sd. tokenToSessionMap s token = Some sid \<and> sid \<noteq> [] \<and> sessionStore s sid = Some sd
          \<and> sessionToken sd = Some token) \<longrightarrow> validateSessionToken now token s = (None, s))"
proof (intro conjI allI impI)
  show "fst (validateSessionToken now token s) \<noteq> None \<longleftrightarrow>
      (\<exists>sid sd. tokenToSessionMap s token = Some sid \<and> sid \<noteq> [] \<and> sessionStore s sid = Some sd
          \<and> sessionToken sd = Some token \<and> now - createdAt_or_0 sd \<le> 24 * 60 * 60 * 1000)"
    by (auto simp add: validateSessionToken_def maxAge_token_def Let_def split: option.splits)
next
  fix sid sd
  assume "tokenToSessionMap s token = Some sid \<and> sid \<noteq> [] \<and> sessionStore s sid = Some sd
          \<and> sessionToken sd = Some token"
  then show "validateSessionToken now token s =
          (if now - createdAt_or_0 sd \<le> 24 * 60 * 60 * 1000 then (Some (sid, sd), s)
           else (None, s\<lparr>tokenToSessionMap := (tokenToSessionMap s)(token := None),
                          sessionStore := (sessionStore s)(sid := None)\<rparr>))"
    by (simp add: validate_ok maxAge_token_def)
next
  assume "\<nexists>sid sd. tokenToSessionMap s token = Some sid \<and> sid \<noteq> [] \<and> sessionStore s sid = Some sd
          \<and> sessionToken sd = Some token"
  then show "validateSessionToken now token s = (None, s)"
    by (rule validate_fail_unchanged)
qed

theorem validateSessionToken_checks_witness:
  "validateSessionToken (5000 + 24 * 60 * 60 * 1000 + 1) ''tok-new'' example_stale =
     (None, example_stale\<lparr>tokenToSessionMap := (tokenToSessionMap example_stale)(''tok-new'' := None),
                          sessionStore := (sessionStore example_stale)(''auth-s1'' := None)\<rparr>)
   \<and> validateSessionToken (5000 + 24 * 60 * 60 * 1000) ''tok-new'' example_stale =
     (Some (''auth-s1'', \<lparr>oauth2Client = Some (OAuth2Client 1), gmail = Some (Gmail (OAuth2Client 1)),
          userId = None, sessionToken = Some ''tok-new'', tokenCreatedAt = Some 5000\<rparr>),
      example_stale)"
proof -
  let ?sd = "\<lparr>oauth2Client = Some (OAuth2Client 1), gmail = Some (Gmail (OAuth2Client 1)),
          userId = None, sessionToken = Some ''tok-new'', tokenCreatedAt = Some 5000\<rparr>"
  have h: "tokenToSessionMap example_stale ''tok-new'' = Some ''auth-s1'' \<and> ''auth-s1'' \<noteq> []
      \<and> sessionStore example_stale ''auth-s1'' = Some ?sd \<and> sessionToken ?sd = Some ''tok-new''"
    by (simp add: example_stale_def)
  have c: "createdAt_or_0 ?sd = 5000"
    by (simp add: createdAt_or_0_def)
  have "validateSessionToken t ''tok-new'' example_stale =
          (if t - createdAt_or_0 ?sd \<le> 24 * 60 * 60 * 1000 then (Some (''auth-s1'', ?sd), example_stale)
           else (None, example_stale\<lparr>tokenToSessionMap := (tokenToSessionMap example_stale)(''tok-new'' := None),
                          sessionStore := (sessionStore example_stale)(''auth-s1'' := None)\<rparr>))" for t
    using validateSessionToken_checks[of t "''tok-new''" example_stale] h by blast
  then have "validateSessionToken t ''tok-new'' example_stale =
          (if t - 5000 \<le> 24 * 60 * 60 * 1000 then (Some (''auth-s1'', ?sd), example_stale)
           else (None, example_stale\<lparr>tokenToSessionMap := (tokenToSessionMap example_stale)(''tok-new'' := None),
                          sessionStore := (sessionStore example_stale)(''auth-s1'' := None)\<rparr>))" for t
    unfolding c .
  then show ?thesis
    by simp
qed

text \<open>
  C5: let \<open>token\<close> be the token that \<open>storeSessionData\<close> returns for the session identity
  \<open>sessionId\<close> (not the empty string, which no caller passes), issued at \<open>issuedAt\<close>.
  Validating it at any time before \<open>issuedAt + 24h\<close> succeeds and returns the session
  identity with the stored record, in particular at \<open>issuedAt\<close> itself and at
  \<open>issuedAt + 23h59m\<close>. Validating it at \<open>issuedAt + 24h01m\<close> fails, the token table no
  longer has the token afterwards, and any retry on the registries so left fails too.
\<close>

theorem token_lifecycle:
  assumes "sessionId \<noteq> []"
    and "storeSessionData uuid tnow issuedAt sessionId client gm uid s = (token, s1)"
  shows "(\<forall>t. t < issuedAt + 24 * 60 * 60 * 1000 \<longrightarrow>
            validateSessionToken t token s1 =
              (Some (sessionId, \<lparr>oauth2Client = Some client, gmail = Some gm, userId = uid,
                       sessionToken = Some token, tokenCreatedAt = Some issuedAt\<rparr>), s1))
       \<and> fst (validateSessionToken issuedAt token s1) \<noteq> None
       \<and> fst (validateSessionToken (issuedAt + (23 * 60 + 59) * 60 * 1000) token s1) \<noteq> None
       \<and> fst (validateSessionToken (issuedAt + (24 * 60 + 1) * 60 * 1000) token s1) = None
       \<and> tokenToSessionMap
            (snd (validateSessionToken (issuedAt + (24 * 60 + 1) * 60 * 1000) token s1)) token = None
       \<and> (\<forall>t'. fst (validateSessionToken t' token
            (snd (validateSessionToken (issuedAt + (24 * 60 + 1) * 60 * 1000) token s1))) = None)"
proof -
  let ?sd = "\<lparr>oauth2Client = Some client, gmail = Some gm, userId = uid,
               sessionToken = Some token, tokenCreatedAt = Some issuedAt\<rparr>"
  have tk: "tokenToSessionMap s1 token = Some sessionId"
    and st: "sessionStore s1 sessionId = Some ?sd"
    using store_lookup[OF assms(2)] by simp_all
  have c: "createdAt_or_0 ?sd = issuedAt"
    by (simp add: createdAt_or_0_def)
  have v: "validateSessionToken t token s1 =
          (if t - issuedAt \<le> maxAge_token then (Some (sessionId, ?sd), s1)
           else (None, s1\<lparr>tokenToSessionMap := (tokenToSessionMap s1)(token := None),
                          sessionStore := (sessionStore s1)(sessionId := None)\<rparr>))" for t
    using validate_ok[OF tk assms(1) st, of t] c by simp
  have late: "validateSessionToken (issuedAt + (24 * 60 + 1) * 60 * 1000) token s1 =
      (None, s1\<lparr>tokenToSessionMap := (tokenToSessionMap s1)(token := None),
                          sessionStore := (sessionStore s1)(sessionId := None)\<rparr>)"
    by (simp add: v maxAge_token_def)
  have retry: "fst (validateSessionToken t' token
      (s1\<lparr>tokenToSessionMap := (tokenToSessionMap s1)(token := None),
          sessionStore := (sessionStore s1)(sessionId := None)\<rparr>)) = None" for t'
    by (simp add: validate_unknown_token)
  have early: "validateSessionToken t token s1 = (Some (sessionId, ?sd), s1)"
    if "t < issuedAt + 24 * 60 * 60 * 1000" for t
    using that by (simp add: v maxAge_token_def)
  have a: "fst (validateSessionToken issuedAt token s1) \<noteq> None"
    by (simp add: early)
  have b: "fst (validateSessionToken (issuedAt + (23 * 60 + 59) * 60 * 1000) token s1) \<noteq> None"
    by (simp add: early)
  show ?thesis
    using early a b retry late by simp
qed

theorem token_lifecycle_witness:
  "fst (validateSessionToken 1000 (fst example_issue) (snd example_issue)) \<noteq> None
   \<and> fst (validateSessionToken (1000 + (23 * 60 + 59) * 60 * 1000) (fst example_issue)
          (snd example_issue)) \<noteq> None
   \<and> fst (validateSessionToken (1000 + (24 * 60 + 1) * 60 * 1000) (fst example_issue)
          (snd example_issue)) = None
   \<and> tokenToSessionMap
        (snd (validateSessionToken (1000 + (24 * 60 + 1) * 60 * 1000) (fst example_issue)
          (snd example_issue))) (fst example_issue) = None"
  using token_lifecycle[of "''auth-s1''" "''0a-1b''" 1000 1000 "OAuth2Client 1" "Gmail (OAuth2Client 1)"
      None empty_registries "fst example_issue" "snd example_issue"]
  by (simp add: example_issue_def)

text \<open>
  C9: a token that passes the table and cross-check tests and whose age is exactly
  24 hours (\<open>24 * 60 * 60 * 1000\<close> ms) is accepted, and neither its mapping nor the
  session record is deleted: the comparison of the source is \<open>tokenAge > maxAge\<close>.
\<close>

theorem validate_at_exactly_24h:
  assumes "tokenToSessionMap s token = Some sid" and "sid \<noteq> []"
    and "sessionStore s sid = Some sd" and "sessionToken sd = Some token"
    and "now - createdAt_or_0 sd = 24 * 60 * 60 * 1000"
  shows "validateSessionToken now token s = (Some (sid, sd), s)
         \<and> tokenToSessionMap (snd (validateSessionToken now token s)) token = Some sid
         \<and> sessionStore (snd (validateSessionToken now token s)) sid = Some sd"
  using assms by (simp add: validate_ok maxAge_token_def)

theorem validate_at_exactly_24h_witness:
  "validateSessionToken (1000 + 24 * 60 * 60 * 1000) (fst example_issue) (snd example_issue)
     = (Some (''auth-s1'', \<lparr>oauth2Client = Some (OAuth2Client 1), gmail = Some (Gmail (OAuth2Client 1)),
          userId = None, sessionToken = Some (fst example_issue), tokenCreatedAt = Some 1000\<rparr>),
        snd example_issue)"
  using validate_at_exactly_24h[of "snd example_issue" "fst example_issue" "''auth-s1''"
      "\<lparr>oauth2Client = Some (OAuth2Client 1), gmail = Some (Gmail (OAuth2Client 1)),
          userId = None, sessionToken = Some (fst example_issue), tokenCreatedAt = Some 1000\<rparr>"
      "1000 + 24 * 60 * 60 * 1000"]
  by (simp add: example_issue_def storeSessionData_def Let_def createdAt_or_0_def empty_registries_def)

text \<open>
  C10: after a second token is issued for the same session id, the first token is
  refused at any time, with the registries unchanged: it is still a key of the token
  table and still maps to the session, but the record of the session now stores the
  second token. A key of the token table is therefore not always a valid token.
\<close>

theorem reissue_stale_mapping:
  assumes "sessionId \<noteq> []"
    and "storeSessionData uuid1 tnow1 now1 sessionId client1 gm1 uid1 s = (token1, s1)"
    and "storeSessionData uuid2 tnow2 now2 sessionId client2 gm2 uid2 s1 = (token2, s2)"
    and "token1 \<noteq> token2"
  shows "validateSessionToken now token1 s2 = (None, s2)
       \<and> tokenToSessionMap s2 token1 = Some sessionId
       \<and> (\<exists>sd. sessionStore s2 sessionId = Some sd \<and> sessionToken sd = Some token2)"
proof -
  have "tokenToSessionMap s1 token1 = Some sessionId"
    using store_lookup(1)[OF assms(2)] .
  then have tk: "tokenToSessionMap s2 token1 = Some sessionId"
    using assms(3,4) by (auto simp add: storeSessionData_def Let_def)
  have st: "sessionStore s2 sessionId =
      Some \<lparr>oauth2Client = Some client2, gmail = Some gm2, userId = uid2,
                 sessionToken = Some token2, tokenCreatedAt = Some now2\<rparr>"
    using store_lookup(2)[OF assms(3)] .
  have "validateSessionToken now token1 s2 = (None, s2)"
    using tk st assms(1,4) by (simp add: validateSessionToken_def)
  with tk st show ?thesis by simp
qed

theorem reissue_stale_mapping_witness:
  "validateSessionToken 6000 (fst example_issue) (snd example_reissue) = (None, snd example_reissue)
   \<and> tokenToSessionMap (snd example_reissue) (fst example_issue) = Some ''auth-s1''"
proof -
  have ne: "fst example_issue \<noteq> fst example_reissue"
    by (simp add: example_issue_def example_reissue_def storeSessionData_def Let_def
        generateSessionToken_def)
  show ?thesis
    using reissue_stale_mapping[of "''auth-s1''" "''0a-1b''" 1000 1000 "OAuth2Client 1"
      "Gmail (OAuth2Client 1)" None empty_registries "fst example_issue" "snd example_issue"
      "''2c-3d''" 5000 5000 "OAuth2Client 1" "Gmail (OAuth2Client 1)" None
      "fst example_reissue" "snd example_reissue" 6000] ne
    by (simp add: example_issue_def example_reissue_def)
qed

section \<open>Properties of the session registry\<close>

subsection \<open>The table keeps its keys distinct\<close>

text \<open>
  A JavaScript \<^verbatim>\<open>Map\<close> holds a key once. The association list of the model does
  so too in every state the manager can reach: the empty table does, and each operation
  keeps it so.
\<close>

lemma distinct_new_manager: "distinct (map fst (sessions new_manager))"
  by (simp add: new_manager_def)

lemma distinct_getOrCreateSession:
  "distinct (map fst (sessions m)) \<Longrightarrow>
     distinct (map fst (sessions (snd (getOrCreateSession uuid created now sessionId
        isInitializeRequest cfg caps ths m))))"
  by (auto simp add: getOrCreateSession_def Let_def distinct_update split: option.splits sum.splits)

lemma closeSession_sessions:
  "sessions (snd (closeSession sid m)) = AList.delete sid (sessions m)"
proof (cases "map_of (sessions m) sid")
  case None
  then have "sid \<notin> fst ` set (sessions m)"
    by (simp add: map_of_eq_None_iff)
  with None show ?thesis
    by (simp add: closeSession_def)
next
  case (Some sd)
  then show ?thesis
    by (simp add: closeSession_def)
qed

lemma distinct_closeSession:
  "distinct (map fst (sessions m)) \<Longrightarrow> distinct (map fst (sessions (snd (closeSession sid m))))"
  by (simp add: closeSession_sessions distinct_delete)

lemma closeSession_absent:
  "map_of (sessions m) sid = None \<Longrightarrow> closeSession sid m = (False, m)"
  by (simp add: closeSession_def)

subsection \<open>closeSession\<close>

text \<open>
  C8: for every session id, \<open>closeSession\<close> returns true exactly when the table had a
  record for the id; afterwards the table has no record for the id and every other
  record is as before; when a record existed, \<^verbatim>\<open>close()\<close> has been called on its
  transport. A second close of the same id returns false and leaves the manager as the
  first close left it.
\<close>

theorem closeSession_idempotent:
  "fst (closeSession sid m) = (map_of (sessions m) sid \<noteq> None)
   \<and> map_of (sessions (snd (closeSession sid m))) sid = None
   \<and> (\<forall>k. k \<noteq> sid \<longrightarrow>
         map_of (sessions (snd (closeSession sid m))) k = map_of (sessions m) k)
   \<and> (\<forall>sd. map_of (sessions m) sid = Some sd \<longrightarrow>
         closedTransports (snd (closeSession sid m))
           = closedTransports m @ [t_sessionId (st_transport sd)])
   \<and> closeSession sid (snd (closeSession sid m)) = (False, snd (closeSession sid m))"
proof -
  have gone: "map_of (sessions (snd (closeSession sid m))) sid = None"
    by (simp add: closeSession_sessions delete_conv')
  have a: "fst (closeSession sid m) = (map_of (sessions m) sid \<noteq> None)"
    by (auto simp add: closeSession_def split: option.splits)
  have b: "map_of (sessions (snd (closeSession sid m))) k = map_of (sessions m) k" if "k \<noteq> sid" for k
    using that by (simp add: closeSession_sessions)
  have c: "closedTransports (snd (closeSession sid m))
           = closedTransports m @ [t_sessionId (st_transport sd)]"
    if "map_of (sessions m) sid = Some sd" for sd
    using that by (simp add: closeSession_def)
  from gone have d: "closeSession sid (snd (closeSession sid m)) = (False, snd (closeSession sid m))"
    by (rule closeSession_absent)
  from a gone b c d show ?thesis by blast
qed

theorem closeSession_idempotent_witness:
  "fst (closeSession ''s1'' example_manager) = True
   \<and> map_of (sessions (snd (closeSession ''s1'' example_manager))) ''s2''
       = Some (example_session ''s2'' 3000000)
   \<and> closedTransports (snd (closeSession ''s1'' example_manager)) = [''s1'']
   \<and> closeSession ''s1'' (snd (closeSession ''s1'' example_manager))
       = (False, snd (closeSession ''s1'' example_manager))
   \<and> fst (closeSession ''forged'' example_manager) = False"
proof -
  have m1: "map_of (sessions example_manager) ''s1'' = Some (example_session ''s1'' 0)"
    and m2: "map_of (sessions example_manager) ''s2'' = Some (example_session ''s2'' 3000000)"
    and m3: "map_of (sessions example_manager) ''forged'' = None"
    and c: "closedTransports example_manager = []"
    by (simp_all add: example_manager_def)
  have t: "t_sessionId (st_transport (example_session ''s1'' 0)) = ''s1''"
    by (simp add: example_session_def)
  have ne: "''s2'' \<noteq> ''s1''"
    by simp
  from closeSession_idempotent[of "''s1''" example_manager] m1 m2 c t ne
    closeSession_idempotent[of "''forged''" example_manager] m3
  show ?thesis
    by simp
qed

subsection \<open>The idle sweeper\<close>

lemma filter_delete_insert:
  "filter (\<lambda>p. fst p \<notin> S) (AList.delete k xs) = filter (\<lambda>p. fst p \<notin> insert k S) xs"
  by (induction xs) (auto simp add: AList.delete_eq)

lemma cleanupLoop_sessions:
  "sessions (fst (cleanupLoop now es (m, n))) =
     filter (\<lambda>p. fst p \<notin> set (map fst
                (filter (\<lambda>e. now - st_lastActivity (snd e) > maxAge_idle) es)))
       (sessions m)"
proof (induction es arbitrary: m n)
  case Nil
  then show ?case by simp
next
  case (Cons e es)
  obtain k v where e: "e = (k, v)" by (cases e)
  show ?case
  proof (cases "now - st_lastActivity v > maxAge_idle")
    case True
    then show ?thesis
      by (simp add: e Cons.IH closeSession_sessions filter_delete_insert)
  next
    case False
    then show ?thesis
      by (simp add: e Cons.IH)
  qed
qed

lemma cleanup_sessions:
  assumes "distinct (map fst (sessions m))"
  shows "sessions (fst (cleanupInactiveSessions now m)) =
     filter (\<lambda>p. \<not> now - st_lastActivity (snd p) > maxAge_idle) (sessions m)"
proof -
  let ?K = "set (map fst (filter (\<lambda>e. now - st_lastActivity (snd e) > maxAge_idle) (sessions m)))"
  have "(fst p \<notin> ?K) = (\<not> now - st_lastActivity (snd p) > maxAge_idle)"
    if p: "p \<in> set (sessions m)" for p
  proof
    assume "fst p \<notin> ?K"
    then show "\<not> now - st_lastActivity (snd p) > maxAge_idle"
      using p by force
  next
    assume ns: "\<not> now - st_lastActivity (snd p) > maxAge_idle"
    show "fst p \<notin> ?K"
    proof
      assume "fst p \<in> ?K"
      then obtain q where q: "q \<in> set (sessions m)" "now - st_lastActivity (snd q) > maxAge_idle"
        "fst q = fst p" by force
      then have "q = p"
        using p assms by (metis eq_key_imp_eq_value prod.collapse)
      with q ns show False by simp
    qed
  qed
  then have "filter (\<lambda>p. fst p \<notin> ?K) (sessions m)
      = filter (\<lambda>p. \<not> now - st_lastActivity (snd p) > maxAge_idle) (sessions m)"
    by (intro filter_cong) simp_all
  then show ?thesis
    unfolding cleanupInactiveSessions_def cleanupLoop_sessions .
qed

lemma closeSession_closed_mono:
  "set (closedTransports m) \<subseteq> set (closedTransports (snd (closeSession sid m)))"
  by (auto simp add: closeSession_def split: option.splits)

lemma cleanupLoop_closed_mono:
  "set (closedTransports m) \<subseteq> set (closedTransports (fst (cleanupLoop now es (m, n))))"
proof (induction es arbitrary: m n)
  case Nil
  then show ?case by simp
next
  case (Cons e es)
  obtain k v where e: "e = (k, v)" by (cases e)
  show ?case
    using Cons.IH[of m n] Cons.IH[of "snd (closeSession k m)" "n + 1"] closeSession_closed_mono[of m k]
    by (auto simp add: e Let_def)
qed

lemma cleanupLoop_closes:
  assumes "distinct (map fst (sessions m))" "set es \<subseteq> set (sessions m)" "distinct (map fst es)"
    and "(sid, sd) \<in> set es" and "now - st_lastActivity sd > maxAge_idle"
  shows "t_sessionId (st_transport sd) \<in> set (closedTransports (fst (cleanupLoop now es (m, n))))"
  using assms
proof (induction es arbitrary: m n)
  case Nil
  then show ?case by simp
next
  case (Cons e es)
  obtain k v where e: "e = (k, v)" by (cases e)
  show ?case
  proof (cases "e = (sid, sd)")
    case True
    have "map_of (sessions m) sid = Some sd"
      using Cons.prems(1,2) True by (simp add: map_of_eq_Some_iff)
    then have "t_sessionId (st_transport sd) \<in> set (closedTransports (snd (closeSession sid m)))"
      by (simp add: closeSession_def)
    then show ?thesis
      using True Cons.prems(5) cleanupLoop_closed_mono[of "snd (closeSession sid m)" now es "n + 1"]
      by (auto simp add: Let_def)
  next
    case False
    then have mem: "(sid, sd) \<in> set es"
      using Cons.prems(4) by simp
    have kne: "k \<noteq> sid"
      using Cons.prems(3) mem e by (auto simp add: image_iff)
    have d': "distinct (map fst (sessions (snd (closeSession k m))))"
      using Cons.prems(1) by (simp add: closeSession_sessions distinct_delete)
    have sub': "set es \<subseteq> set (sessions (snd (closeSession k m)))"
    proof
      fix p assume p: "p \<in> set es"
      then have "fst p \<noteq> k"
        using Cons.prems(3) e by (auto simp add: image_iff)
      moreover have "p \<in> set (sessions m)"
        using p Cons.prems(2) by auto
      ultimately show "p \<in> set (sessions (snd (closeSession k m)))"
        by (auto simp add: closeSession_sessions AList.delete_eq)
    qed
    have d3: "distinct (map fst es)"
      using Cons.prems(3) by simp
    show ?thesis
    proof (cases "now - st_lastActivity v > maxAge_idle")
      case True
      then show ?thesis
        using Cons.IH[OF d' sub' d3 mem Cons.prems(5), of "n + 1"] by (simp add: e)
    next
      case False
      have sub: "set es \<subseteq> set (sessions m)"
        using Cons.prems(2) by simp
      show ?thesis
        using False Cons.IH[OF Cons.prems(1) sub d3 mem Cons.prems(5), of n] by (simp add: e)
    qed
  qed
qed

lemma distinct_cleanupInactiveSessions:
  "distinct (map fst (sessions m)) \<Longrightarrow>
     distinct (map fst (sessions (fst (cleanupInactiveSessions now m))))"
  by (simp add: cleanup_sessions distinct_map_filter)

text \<open>
  C7: let the sweeper run once at time \<open>now\<close> over a table with distinct keys, and let
  \<open>(sid, sd)\<close> be one of its entries. If the session has been inactive for more than one
  hour (\<open>now - lastActivity > 60 * 60 * 1000\<close>), then \<^verbatim>\<open>close()\<close> has been called on
  its transport, the table has no record for \<open>sid\<close> and the listing of
  \<open>getSessionStats\<close> (taken at any time \<open>now'\<close>) has no entry for \<open>sid\<close>. If it has been
  inactive for at most one hour, in particular for less, its record is still in the
  table, unchanged, and its summary is in the listing.
\<close>

theorem idle_sweep:
  assumes "distinct (map fst (sessions m))" and "(sid, sd) \<in> set (sessions m)"
  shows "(now - st_lastActivity sd > 60 * 60 * 1000 \<longrightarrow>
           sid \<notin> sum_sessionId ` set (stats_sessions
                   (getSessionStats now' (fst (cleanupInactiveSessions now m))))
           \<and> map_of (sessions (fst (cleanupInactiveSessions now m))) sid = None
           \<and> t_sessionId (st_transport sd)
               \<in> set (closedTransports (fst (cleanupInactiveSessions now m))))
       \<and> (now - st_lastActivity sd \<le> 60 * 60 * 1000 \<longrightarrow>
           \<lparr>sum_sessionId = sid, sum_authSessionId = st_authSessionId sd,
            sum_requestCount = st_requestCount sd, sum_age = now' - st_createdAt sd\<rparr>
             \<in> set (stats_sessions (getSessionStats now' (fst (cleanupInactiveSessions now m))))
           \<and> map_of (sessions (fst (cleanupInactiveSessions now m))) sid = Some sd)"
proof (intro conjI impI)
  let ?m' = "fst (cleanupInactiveSessions now m)"
  have s': "sessions ?m' = filter (\<lambda>p. \<not> now - st_lastActivity (snd p) > maxAge_idle) (sessions m)"
    using assms(1) by (rule cleanup_sessions)
  have d': "distinct (map fst (sessions ?m'))"
    unfolding s' using assms(1) by (simp add: distinct_map_filter)
  have ids: "sum_sessionId ` set (stats_sessions (getSessionStats now' ?m')) = fst ` set (sessions ?m')"
    by (force simp add: getSessionStats_def image_iff)
  {
    assume stale: "now - st_lastActivity sd > 60 * 60 * 1000"
    have "sid \<notin> fst ` set (sessions ?m')"
    proof
      assume "sid \<in> fst ` set (sessions ?m')"
      then obtain sd' where m1: "(sid, sd') \<in> set (sessions ?m')" by auto
      then have "(sid, sd') \<in> set (sessions m)" and ns: "\<not> now - st_lastActivity sd' > maxAge_idle"
        unfolding s' by auto
      then have "sd' = sd"
        using assms by (meson eq_key_imp_eq_value)
      with ns stale show False by (simp add: maxAge_idle_def)
    qed
    then show "sid \<notin> sum_sessionId ` set (stats_sessions (getSessionStats now' ?m'))"
      and "map_of (sessions ?m') sid = None"
      by (simp_all add: ids map_of_eq_None_iff)
    show "t_sessionId (st_transport sd) \<in> set (closedTransports ?m')"
      unfolding cleanupInactiveSessions_def
      using cleanupLoop_closes[OF assms(1) subset_refl assms(1) assms(2), of now 0] stale
      by (simp add: maxAge_idle_def)
  }
  {
    assume fresh: "now - st_lastActivity sd \<le> 60 * 60 * 1000"
    then have mem: "(sid, sd) \<in> set (sessions ?m')"
      unfolding s' using assms(2) by (simp add: maxAge_idle_def)
    then show "\<lparr>sum_sessionId = sid, sum_authSessionId = st_authSessionId sd,
            sum_requestCount = st_requestCount sd, sum_age = now' - st_createdAt sd\<rparr>
             \<in> set (stats_sessions (getSessionStats now' ?m'))"
      by (force simp add: getSessionStats_def image_iff)
    show "map_of (sessions ?m') sid = Some sd"
      using mem d' by (simp add: map_of_eq_Some_iff)
  }
qed

theorem idle_sweep_witness:
  "''s1'' \<notin> sum_sessionId ` set (stats_sessions
       (getSessionStats 3700000 (fst (cleanupInactiveSessions 3700000 example_manager))))
   \<and> ''s1'' \<in> set (closedTransports (fst (cleanupInactiveSessions 3700000 example_manager)))
   \<and> \<lparr>sum_sessionId = ''s2'', sum_authSessionId = ''auth-s2'', sum_requestCount = 0,
        sum_age = 700000\<rparr>
       \<in> set (stats_sessions
            (getSessionStats 3700000 (fst (cleanupInactiveSessions 3700000 example_manager))))"
proof -
  have d: "distinct (map fst (sessions example_manager))"
    by (simp add: example_manager_def)
  have m1: "(''s1'', example_session ''s1'' 0) \<in> set (sessions example_manager)"
    and m2: "(''s2'', example_session ''s2'' 3000000) \<in> set (sessions example_manager)"
    by (simp_all add: example_manager_def)
  have f: "st_lastActivity (example_session ''s1'' 0) = 0"
    "st_lastActivity (example_session ''s2'' 3000000) = 3000000"
    "st_createdAt (example_session ''s2'' 3000000) = 3000000"
    "st_requestCount (example_session ''s2'' 3000000) = 0"
    "st_authSessionId (example_session ''s2'' 3000000) = ''auth-s2''"
    "t_sessionId (st_transport (example_session ''s1'' 0)) = ''s1''"
    by (simp_all add: example_session_def)
  from idle_sweep[OF d m1, of 3700000 3700000] idle_sweep[OF d m2, of 3700000 3700000]
  show ?thesis
    by (simp add: f)
qed

subsection \<open>getOrCreateSession\<close>









subsection \<open>Handler registration and capability discovery\<close>




section \<open>Properties of the transport's send\<close>

text \<open>
  C1, as the spec states it, fails on the code: a \<open>send\<close> entered without an ambient
  request context raises no error. On an open connection it prints a warning and the
  parent's \<open>send\<close> emits the response.
\<close>

theorem send_without_context_counterexample:
  "send example_super_send \<lparr>t_sessionId = ''s1'', t_authSessionId = ''auth-s1''\<rparr> None
       ''response'' (Some [])
     = ([LogSending ''s1'', WarnNoContext ''s1''], Inr (Some [(None, ''response'')]))"
  by (simp add: send_def example_super_send_def)

text \<open>
  C1 (amended): a \<open>send\<close> entered without an ambient request context prints a warning
  that names the transport's own session id and then calls the parent's \<open>send\<close> with
  the message; its outcome is that of the parent's \<open>send\<close>, so it fails only if the
  parent's \<open>send\<close> fails. It puts no context in place of the missing one: whatever
  the ambient context is, present or absent, the parent's \<open>send\<close> runs under exactly
  that context.
\<close>

theorem send_passes_ambient_context:
  "send super_send this None message conn =
     ([LogSending (t_sessionId this), WarnNoContext (t_sessionId this)],
      super_send None message conn)
   \<and> snd (send super_send this ambient message conn) = super_send ambient message conn"
  by (simp add: send_def Let_def split: option.splits)

section \<open>Properties of the authentication gate\<close>










end
